theory Spec2Isabelle
  imports Complex_Main
begin

section \<open>Cubic equations of state: roots, EoS kinds and the vapour-pressure flash\<close>

text \<open>
  The C++ sources compute with \<^verbatim>\<open>double\<close> and \<^verbatim>\<open>std::complex<double>\<close>.
  Throughout this development a \<^verbatim>\<open>double\<close> is modelled by a \<^typ>\<open>real\<close> and a
  \<^verbatim>\<open>std::complex<double>\<close> by a \<^typ>\<open>complex\<close>: the arithmetic is exact, rounding,
  infinities and NaN are not modelled, and a decimal literal is the number written. A
  \<^verbatim>\<open>std::array<T, 3>\<close> of coefficients and the
  brace-initialised \<^verbatim>\<open>cubic_equation\<close> are triples, a \<^verbatim>\<open>std::vector\<close> is a list
  and a C++ \<^verbatim>\<open>int\<close> is an \<^typ>\<open>int\<close> (the iteration counter never exceeds the
  \<^verbatim>\<open>int\<close> bound it is compared with, so it cannot overflow).
\<close>

subsection \<open>roots.hpp: Cardano's formula and the real roots of a cubic\<close>

type_synonym cubic_equation = "real \<times> real \<times> real"

text \<open>
  The two functions of the C++ standard library that \<^verbatim>\<open>roots\<close> calls.
  \<^verbatim>\<open>std::sqrt\<close> on a \<^verbatim>\<open>std::complex\<close> is the principal square root, which is
  \<^const>\<open>csqrt\<close>. \<^verbatim>\<open>std::pow(z, y)\<close> for a complex \<open>z\<close> and a real \<open>y\<close> is the principal
  power \<open>exp (y log z)\<close>, of modulus \<open>|z|\<^sup>y\<close> and argument \<open>y arg z\<close> with
  \<open>- pi < arg z \<le> pi\<close>, and 0 at \<open>z = 0\<close> for the positive exponent used here.
\<close>

definition cpow :: "complex \<Rightarrow> real \<Rightarrow> complex" where
  "cpow z y = (if z = 0 then 0 else rcis (cmod z powr y) (y * Arg z))"

text \<open>\<^verbatim>\<open>roots\<close> returns the array \<^verbatim>\<open>{x1, x2, x3}\<close>, here the list of the three.\<close>

fun roots :: "cubic_equation \<Rightarrow> complex list" where
  "roots (a0, a1, a2) =
     (let p = (3 * a1 - a0 * a0) / 9;
          q = (27 * a2 + a0 * (2 * a0 * a0 - 9 * a1)) / 54;
          disc = p * p * p + q * q;
          s = csqrt (Complex disc 0);
          u1 = cpow (- complex_of_real q + s) (1 / 3);
          u2 = cpow (- complex_of_real q - s) (1 / 3);
          sqrt3 = 1.7320508075688772935;
          w1 = Complex (- 0.5) (sqrt3 / 2);
          w2 = Complex (- 0.5) (- sqrt3 / 2);
          x1 = u1 + u2 - complex_of_real (a0 / 3);
          x2 = w1 * u1 + w2 * u2 - complex_of_real (a0 / 3);
          x3 = w2 * u1 + w1 * u2 - complex_of_real (a0 / 3)
      in [x1, x2, x3])"

fun num_of_real_roots :: "cubic_equation \<Rightarrow> int" where
  "num_of_real_roots (a0, a1, a2) =
     (let p = (3 * a1 - a0 * a0) / 9;
          q = (27 * a2 + a0 * (2 * a0 * a0 - 9 * a1)) / 54;
          det = p * p * p + q * q
      in if det = 0 then (if p = 0 then 1 else 2)
         else if det > 0 then 3
         else 1)"

text \<open>The loop of \<^verbatim>\<open>real_roots\<close> pushes the real part of every root that passes the test,
  in the order of the array.\<close>

definition real_roots :: "cubic_equation \<Rightarrow> real list" where
  "real_roots a =
     (let x = roots a;
          eps = 1 / 10 ^ 10
      in map Re (filter (\<lambda>xi. \<bar>Im xi\<bar> < eps) x))"

declare roots.simps [simp del]
declare num_of_real_roots.simps [simp del]

text \<open>
  On the negative real axis the principal argument is \<open>pi\<close>. In IEEE arithmetic the
  zero imaginary part of a real \<open>z\<close> carries a sign, and a negative zero puts the
  argument at \<open>- pi\<close>, which conjugates the power. Which sign \<^verbatim>\<open>-q - s\<close> gets for a
  real \<^verbatim>\<open>s\<close> is decided by the standard library's
  \<^verbatim>\<open>operator-(const T&, const complex<T>&)\<close>, not by \<^verbatim>\<open>roots.hpp\<close>: an
  implementation that negates \<^verbatim>\<open>s\<close> and then adds \<^verbatim>\<open>-q\<close> to the real part (as
  libstdc++ does) gives the negative zero. \<open>roots_neg_zero\<close> is \<open>roots\<close> under that
  reading. The two agree unless \<^verbatim>\<open>-q - s\<close> is a negative real, which needs
  \<open>disc \<ge> 0\<close>; the properties below say for which reading they are proved.
\<close>

definition cpow_neg_zero :: "complex \<Rightarrow> real \<Rightarrow> complex" where
  "cpow_neg_zero z y = (if Im z = 0 then cnj (cpow z y) else cpow z y)"

fun roots_neg_zero :: "cubic_equation \<Rightarrow> complex list" where
  "roots_neg_zero (a0, a1, a2) =
     (let p = (3 * a1 - a0 * a0) / 9;
          q = (27 * a2 + a0 * (2 * a0 * a0 - 9 * a1)) / 54;
          disc = p * p * p + q * q;
          s = csqrt (Complex disc 0);
          u1 = cpow (- complex_of_real q + s) (1 / 3);
          u2 = cpow_neg_zero (- complex_of_real q - s) (1 / 3);
          sqrt3 = 1.7320508075688772935;
          w1 = Complex (- 0.5) (sqrt3 / 2);
          w2 = Complex (- 0.5) (- sqrt3 / 2);
          x1 = u1 + u2 - complex_of_real (a0 / 3);
          x2 = w1 * u1 + w2 * u2 - complex_of_real (a0 / 3);
          x3 = w2 * u1 + w1 * u2 - complex_of_real (a0 / 3)
      in [x1, x2, x3])"

definition real_roots_neg_zero :: "cubic_equation \<Rightarrow> real list" where
  "real_roots_neg_zero a =
     (let x = roots_neg_zero a;
          eps = 1 / 10 ^ 10
      in map Re (filter (\<lambda>xi. \<bar>Im xi\<bar> < eps) x))"

declare roots_neg_zero.simps [simp del]

text \<open>Names for the locals \<^verbatim>\<open>p\<close>, \<^verbatim>\<open>q\<close> and \<^verbatim>\<open>disc\<close> (\<^verbatim>\<open>det\<close> in
  \<^verbatim>\<open>num_of_real_roots\<close>) that both functions compute from the coefficients.\<close>

fun depressed_p :: "cubic_equation \<Rightarrow> real" where
  "depressed_p (a0, a1, a2) = (3 * a1 - a0 * a0) / 9"

fun depressed_q :: "cubic_equation \<Rightarrow> real" where
  "depressed_q (a0, a1, a2) = (27 * a2 + a0 * (2 * a0 * a0 - 9 * a1)) / 54"

definition disc :: "cubic_equation \<Rightarrow> real" where
  "disc a = (let p = depressed_p a; q = depressed_q a in p * p * p + q * q)"

subsection \<open>cubic\_eos\_base.hpp: critical constants and reduced parameters\<close>

text \<open>\<^verbatim>\<open>cubic_eos_traits<Derived>\<close>: the two constants of an EoS kind.\<close>

record cubic_eos_traits =
  omega_a :: real
  omega_b :: real

definition van_der_waals_traits :: cubic_eos_traits where
  "van_der_waals_traits = \<lparr>omega_a = 0.421875, omega_b = 0.125\<rparr>"

definition peng_robinson_traits :: cubic_eos_traits where
  "peng_robinson_traits = \<lparr>omega_a = 0.45724, omega_b = 0.07780\<rparr>"

text \<open>The data members of \<^verbatim>\<open>cubic_eos_crtp_base\<close>. Derived classes extend the record.\<close>

record cubic_eos_crtp_base =
  pc_' :: real
  tc_' :: real
  ac_' :: real
  bc_' :: real

text \<open>The header \<^verbatim>\<open>eos/common/thermodynamic_constants.hpp\<close> that defines
  \<^verbatim>\<open>gas_constant<double>()\<close> is not part of the sources at hand; the gas constant is
  the parameter \<open>R\<close> of every function that uses it.\<close>

definition critical_attraction_param :: "cubic_eos_traits \<Rightarrow> real \<Rightarrow> real \<Rightarrow> real \<Rightarrow> real" where
  "critical_attraction_param tr R pc tc = (omega_a tr * R * R) * tc * tc / pc"

definition critical_repulsion_param :: "cubic_eos_traits \<Rightarrow> real \<Rightarrow> real \<Rightarrow> real \<Rightarrow> real" where
  "critical_repulsion_param tr R pc tc = (omega_b tr * R) * tc / pc"

definition reduced_attraction_param :: "cubic_eos_traits \<Rightarrow> real \<Rightarrow> real \<Rightarrow> real" where
  "reduced_attraction_param tr pr tr' = omega_a tr * pr / (tr' * tr')"

definition reduced_repulsion_param :: "cubic_eos_traits \<Rightarrow> real \<Rightarrow> real \<Rightarrow> real" where
  "reduced_repulsion_param tr pr tr' = omega_b tr * pr / tr'"

definition set_params ::
  "cubic_eos_traits \<Rightarrow> real \<Rightarrow> real \<Rightarrow> real \<Rightarrow>
   'a cubic_eos_crtp_base_scheme \<Rightarrow> 'a cubic_eos_crtp_base_scheme" where
  "set_params tr R pc tc e =
     e\<lparr>pc_' := pc, tc_' := tc,
       ac_' := critical_attraction_param tr R pc tc,
       bc_' := critical_repulsion_param tr R pc tc\<rparr>"

definition reduced_pressure :: "'a cubic_eos_crtp_base_scheme \<Rightarrow> real \<Rightarrow> real" where
  "reduced_pressure e p = p / pc_' e"

definition reduced_temperature :: "'a cubic_eos_crtp_base_scheme \<Rightarrow> real \<Rightarrow> real" where
  "reduced_temperature e t = t / tc_' e"

subsection \<open>van\_der\_waals\_eos.hpp\<close>

type_synonym van_der_waals_eos = cubic_eos_crtp_base

definition vdw_zfactor_cubic_eq :: "real \<Rightarrow> real \<Rightarrow> cubic_equation" where
  "vdw_zfactor_cubic_eq a b = (- b - 1, a, - a * b)"

definition vdw_set_params :: "real \<Rightarrow> real \<Rightarrow> real \<Rightarrow> van_der_waals_eos \<Rightarrow> van_der_waals_eos" where
  "vdw_set_params R pc tc e = set_params van_der_waals_traits R pc tc e"

subsection \<open>peng\_robinson\_eos.hpp\<close>

record peng_robinson_eos = cubic_eos_crtp_base +
  omega_' :: real
  m_' :: real

definition pr_zfactor_cubic_eq :: "real \<Rightarrow> real \<Rightarrow> cubic_equation" where
  "pr_zfactor_cubic_eq a b = (b - 1, a - (3 * b + 2) * b, (- a + b + b * b) * b)"

definition m :: "real \<Rightarrow> real" where
  "m omega = 0.3796 + omega * (1.485 - omega * (0.1644 - 0.01667 * omega))"

definition make_peng_robinson_eos :: "real \<Rightarrow> real \<Rightarrow> real \<Rightarrow> real \<Rightarrow> peng_robinson_eos" where
  "make_peng_robinson_eos R pc tc omega =
     \<lparr>pc_' = pc, tc_' = tc,
      ac_' = critical_attraction_param peng_robinson_traits R pc tc,
      bc_' = critical_repulsion_param peng_robinson_traits R pc tc,
      omega_' = omega, m_' = m omega\<rparr>"

definition pr_set_params ::
  "real \<Rightarrow> real \<Rightarrow> real \<Rightarrow> real \<Rightarrow> peng_robinson_eos \<Rightarrow> peng_robinson_eos" where
  "pr_set_params R pc tc omega e =
     (set_params peng_robinson_traits R pc tc e)\<lparr>omega_' := omega, m_' := m omega\<rparr>"

definition alpha :: "peng_robinson_eos \<Rightarrow> real \<Rightarrow> real" where
  "alpha e tr = (let a = 1 + m_' e * (1 - sqrt tr) in a * a)"

definition beta :: "peng_robinson_eos \<Rightarrow> real \<Rightarrow> real" where
  "beta e tr = (let sqrt_tr = sqrt tr in - m_' e * sqrt_tr * (1 + m_' e * (1 - sqrt_tr)))"

subsection \<open>flash.hpp: the vapour-pressure flash\<close>

text \<open>
  \<^verbatim>\<open>flash<Eos>\<close> is a template over the EoS. Of the EoS it uses only
  \<^verbatim>\<open>eos_.state(p, t)\<close>, and of the state only \<^verbatim>\<open>zfactor()\<close> and
  \<^verbatim>\<open>fugacity_coeff(z)\<close>: the EoS is modelled by its \<^verbatim>\<open>state\<close> function, the state
  by a record of the root vector and the fugacity function.
\<close>

datatype error_code = success | max_iter_reached | multiple_roots_not_found

record iter_report =
  rsd :: real
  iter :: int
  error :: error_code

record eos_state =
  zfactor :: "real list"
  fugacity_coeff :: "real \<Rightarrow> real"

record flash =
  eos_' :: "real \<Rightarrow> real \<Rightarrow> eos_state"
  tol_' :: real
  max_iter_' :: int

text \<open>The two constructors: \<^verbatim>\<open>flash(eos, tol, max_iter)\<close>, which takes any tolerance
  and any \<^verbatim>\<open>int\<close>, and \<^verbatim>\<open>flash(eos)\<close> (also \<^verbatim>\<open>make_flash\<close>) with the defaults.\<close>

definition flash_of :: "(real \<Rightarrow> real \<Rightarrow> eos_state) \<Rightarrow> real \<Rightarrow> int \<Rightarrow> flash" where
  "flash_of eos tol max_iter = \<lparr>eos_' = eos, tol_' = tol, max_iter_' = max_iter\<rparr>"

definition make_flash :: "(real \<Rightarrow> real \<Rightarrow> eos_state) \<Rightarrow> flash" where
  "make_flash eos = \<lparr>eos_' = eos, tol_' = 1 / 10 ^ 6, max_iter_' = 100\<rparr>"

text \<open>\<^verbatim>\<open>*std::max_element(z.begin(), z.end())\<close> and its \<^verbatim>\<open>min\<close> twin, called only on
  vectors of at least two entries.\<close>

definition max_element :: "real list \<Rightarrow> real" where
  "max_element z = fold max (tl z) (hd z)"

definition min_element :: "real list \<Rightarrow> real" where
  "min_element z = fold min (tl z) (hd z)"

text \<open>
  The \<^verbatim>\<open>while\<close> loop of \<^verbatim>\<open>vapor_pressure\<close>. It either returns from inside the body
  (\<open>Return\<close>, with the returned pressure and report) or falls through with the final
  values of \<^verbatim>\<open>p\<close>, \<^verbatim>\<open>eps\<close> and \<^verbatim>\<open>iter\<close> (\<open>Done\<close>). The counter grows towards
  \<^verbatim>\<open>max_iter_\<close>, which is the termination measure.

  The pressures, fugacity coefficients and residuals are reals, so the model covers the
  runs in which every value computed is a finite number. In the code a fugacity
  coefficient can also be NaN or infinite, and \<^verbatim>\<open>phi_liq / phi_vap\<close> with
  \<^verbatim>\<open>phi_vap\<close> zero is infinite or NaN. A NaN residual fails the test
  \<^verbatim>\<open>eps > tol_\<close>, so the loop ends there and, if \<^verbatim>\<open>iter < max_iter_\<close>, the code
  returns \<^verbatim>\<open>success\<close> with a NaN pressure. Such runs have no counterpart here, and
  nothing below is said about them.
\<close>

datatype loop_result = Return real iter_report | Done real real int

function vapor_pressure_loop :: "flash \<Rightarrow> real \<Rightarrow> real \<Rightarrow> real \<Rightarrow> int \<Rightarrow> loop_result" where
  "vapor_pressure_loop f t p eps it =
     (if eps > tol_' f \<and> it < max_iter_' f then
        (let state = eos_' f p t;
             z = zfactor state
         in if length z < 2 then
              Return 0 \<lparr>rsd = eps, iter = it, error = multiple_roots_not_found\<rparr>
            else
              (let z_vap = max_element z;
                   z_liq = min_element z;
                   phi_vap = fugacity_coeff state z_vap;
                   phi_liq = fugacity_coeff state z_liq
               in vapor_pressure_loop f t (p * (phi_liq / phi_vap))
                    \<bar>1 - phi_liq / phi_vap\<bar> (it + 1)))
      else Done p eps it)"
  by pat_completeness auto
termination
  by (relation "measure (\<lambda>(f, t, p, eps, it). nat (max_iter_' f - it))") auto

definition vapor_pressure :: "flash \<Rightarrow> real \<Rightarrow> real \<Rightarrow> real \<times> iter_report" where
  "vapor_pressure f p_init t =
     (case vapor_pressure_loop f t p_init 1 0 of
        Return p r \<Rightarrow> (p, r)
      | Done p eps it \<Rightarrow>
          if it \<ge> max_iter_' f then (0, \<lparr>rsd = eps, iter = it, error = max_iter_reached\<rparr>)
          else (p, \<lparr>rsd = eps, iter = it, error = success\<rparr>))"

declare vapor_pressure_loop.simps [simp del]

text \<open>
  The iteration described on its own, without tolerance or budget: the ratio
  \<open>phi_liq / phi_vap\<close> at a pressure, and the pressure and residual after \<open>k\<close>
  successive substitutions from \<open>p_init\<close> (\<open>None\<close> once a root vector had fewer than
  two entries). \<open>reaches f t p_init k p eps\<close> says that the loop of the flash \<open>f\<close>
  evaluates its test a \<open>k+1\<close>-st time, with \<^verbatim>\<open>p\<close> and \<^verbatim>\<open>eps\<close> holding \<open>p\<close> and \<open>eps\<close>:
  all earlier tests passed and all earlier root vectors had two entries.
\<close>

definition fugacity_ratio :: "flash \<Rightarrow> real \<Rightarrow> real \<Rightarrow> real" where
  "fugacity_ratio f t p =
     (let state = eos_' f p t; z = zfactor state
      in fugacity_coeff state (min_element z) / fugacity_coeff state (max_element z))"

fun iterate :: "flash \<Rightarrow> real \<Rightarrow> real \<Rightarrow> nat \<Rightarrow> (real \<times> real) option" where
  "iterate f t p_init 0 = Some (p_init, 1)"
| "iterate f t p_init (Suc k) =
     (case iterate f t p_init k of
        None \<Rightarrow> None
      | Some (p, eps) \<Rightarrow>
          if length (zfactor (eos_' f p t)) < 2 then None
          else Some (p * fugacity_ratio f t p, \<bar>1 - fugacity_ratio f t p\<bar>))"

definition reaches :: "flash \<Rightarrow> real \<Rightarrow> real \<Rightarrow> nat \<Rightarrow> real \<Rightarrow> real \<Rightarrow> bool" where
  "reaches f t p_init k p eps \<longleftrightarrow>
     iterate f t p_init k = Some (p, eps) \<and>
     (\<forall>j<k. int j < max_iter_' f \<and>
        (\<exists>p' e'. iterate f t p_init j = Some (p', e') \<and> e' > tol_' f))"

text \<open>Two small EoS stand-ins, used for concrete runs: one whose fugacity coefficients
  agree at once, one that doubles the pressure and has a single root from pressure 8
  on.\<close>

definition unit_ratio_eos :: "real \<Rightarrow> real \<Rightarrow> eos_state" where
  "unit_ratio_eos p t = \<lparr>zfactor = [1, 2], fugacity_coeff = (\<lambda>z. 1)\<rparr>"

definition leaving_eos :: "real \<Rightarrow> real \<Rightarrow> eos_state" where
  "leaving_eos p t =
     \<lparr>zfactor = (if p < 8 then [1, 2] else [1]), fugacity_coeff = (\<lambda>z. 3 - z)\<rparr>"

section \<open>Properties\<close>

subsection \<open>Classification by the sign of \<open>p\<^sup>3 + q\<^sup>2\<close>\<close>

lemma num_of_real_roots_unfold:
  "num_of_real_roots (a0, a1, a2) =
     (if disc (a0, a1, a2) = 0 then (if depressed_p (a0, a1, a2) = 0 then 1 else 2)
      else if disc (a0, a1, a2) > 0 then 3 else 1)"
  by (simp add: num_of_real_roots.simps disc_def Let_def)

text \<open>
  C5. With \<open>p = (3b - a\<^sup>2)/9\<close>, \<open>q = (27c + a(2a\<^sup>2 - 9b))/54\<close> and
  \<open>disc = p\<^sup>3 + q\<^sup>2\<close>, \<open>num_of_real_roots\<close> answers 1 when \<open>disc = 0\<close> and \<open>p = 0\<close>,
  2 when \<open>disc = 0\<close> and \<open>p \<noteq> 0\<close>, and 3 when \<open>disc > 0\<close>.
\<close>

theorem num_of_real_roots_classifies:
  fixes a b c :: real
  shows "depressed_p (a, b, c) = (3 * b - a\<^sup>2) / 9 \<and>
         depressed_q (a, b, c) = (27 * c + a * (2 * a\<^sup>2 - 9 * b)) / 54 \<and>
         disc (a, b, c) = (depressed_p (a, b, c)) ^ 3 + (depressed_q (a, b, c))\<^sup>2 \<and>
         (disc (a, b, c) = 0 \<and> depressed_p (a, b, c) = 0 \<longrightarrow> num_of_real_roots (a, b, c) = 1) \<and>
         (disc (a, b, c) = 0 \<and> depressed_p (a, b, c) \<noteq> 0 \<longrightarrow> num_of_real_roots (a, b, c) = 2) \<and>
         (disc (a, b, c) > 0 \<longrightarrow> num_of_real_roots (a, b, c) = 3)"
proof -
  have p: "depressed_p (a, b, c) = (3 * b - a\<^sup>2) / 9"
    by (simp add: power2_eq_square)
  have q: "depressed_q (a, b, c) = (27 * c + a * (2 * a\<^sup>2 - 9 * b)) / 54"
    by (simp add: power2_eq_square)
  have d: "disc (a, b, c) = (depressed_p (a, b, c)) ^ 3 + (depressed_q (a, b, c))\<^sup>2"
    unfolding disc_def Let_def power2_eq_square power3_eq_cube by (rule refl)
  note n = num_of_real_roots_unfold [of a b c]
  have n1: "disc (a, b, c) = 0 \<and> depressed_p (a, b, c) = 0 \<longrightarrow> num_of_real_roots (a, b, c) = 1"
    by (simp del: depressed_p.simps depressed_q.simps add: n)
  have n2: "disc (a, b, c) = 0 \<and> depressed_p (a, b, c) \<noteq> 0 \<longrightarrow> num_of_real_roots (a, b, c) = 2"
    by (simp del: depressed_p.simps depressed_q.simps add: n)
  have n3: "disc (a, b, c) > 0 \<longrightarrow> num_of_real_roots (a, b, c) = 3"
    by (simp del: depressed_p.simps depressed_q.simps add: n)
  from p q d n1 n2 n3 show ?thesis
    by blast
qed

theorem num_of_real_roots_classifies_witness:
  "num_of_real_roots (0, 0, 0) = 1 \<and> num_of_real_roots (0, - 3, 2) = 2 \<and>
   num_of_real_roots (0, 1, 1) = 3"
  using num_of_real_roots_classifies [of 0 0 0] num_of_real_roots_classifies [of 0 "- 3" 2]
    num_of_real_roots_classifies [of 0 1 1]
  by (simp add: power3_eq_cube power2_eq_square)

subsection \<open>Bounds for the numbers that occur\<close>

text \<open>The literal used for the square root of 3 lies just below it, and so does the
  \<^verbatim>\<open>double\<close> nearest to the literal, \<open>3900231685776981 / 2\<^sup>5\<^sup>1\<close>.\<close>

lemma sqrt3_literal: "(0::real) < 1.7320508075688772935" "(1.7320508075688772935::real) < sqrt 3"
proof -
  show "(0::real) < 1.7320508075688772935" by simp
  have "(1.7320508075688772935::real)\<^sup>2 < 3" by (simp add: power2_eq_square)
  then show "(1.7320508075688772935::real) < sqrt 3"
    by (rule real_less_rsqrt)
qed

lemma sqrt3_double: "(0::real) < 3900231685776981 / 2 ^ 51" "(3900231685776981 / 2 ^ 51 :: real) < sqrt 3"
proof -
  show "(0::real) < 3900231685776981 / 2 ^ 51" by simp
  have "(3900231685776981 / 2 ^ 51 :: real)\<^sup>2 < 3" by (simp add: power2_eq_square)
  then show "(3900231685776981 / 2 ^ 51 :: real) < sqrt 3"
    by (rule real_less_rsqrt)
qed

lemma sqrt3_bounds: "17320508075 / 10 ^ 10 < sqrt (3::real)" "sqrt (3::real) < 17320508076 / 10 ^ 10"
proof -
  have "(17320508075 / 10 ^ 10 :: real)\<^sup>2 < 3" by (simp add: power2_eq_square)
  then show "17320508075 / 10 ^ 10 < sqrt (3::real)" by (rule real_less_rsqrt)
  have "(3::real) < (17320508076 / 10 ^ 10)\<^sup>2" by (simp add: power2_eq_square)
  then show "sqrt (3::real) < 17320508076 / 10 ^ 10" by (rule real_less_lsqrt [rotated 1]) simp
qed

lemma third_power_eighth: "(1 / 8 :: real) powr (1 / 3) = 1 / 2"
proof -
  have "root 3 ((1 / 2 :: real) ^ 3) = 1 / 2"
    by (rule real_root_power_cancel) simp_all
  moreover have "root 3 (1 / 8 :: real) = (1 / 8) powr (1 / 3)"
    using root_powr_inverse [of 3 "1 / 8 :: real"] by simp
  ultimately show ?thesis by (simp add: power3_eq_cube)
qed

lemma third_power_thousandth: "(1 / 1000 :: real) powr (1 / 3) = 1 / 10"
proof -
  have "root 3 ((1 / 10 :: real) ^ 3) = 1 / 10"
    by (rule real_root_power_cancel) simp_all
  moreover have "root 3 (1 / 1000 :: real) = (1 / 1000) powr (1 / 3)"
    using root_powr_inverse [of 3 "1 / 1000 :: real"] by simp
  ultimately show ?thesis by (simp add: power3_eq_cube)
qed

lemma sqrt_31_108: "501 / 1000 < sqrt (31 / 108 :: real)" "sqrt (31 / 108 :: real) < 5 / 8"
proof -
  have "(501 / 1000 :: real)\<^sup>2 < 31 / 108" by (simp add: power2_eq_square)
  then show "501 / 1000 < sqrt (31 / 108 :: real)" by (rule real_less_rsqrt)
  have "(31 / 108 :: real) < (5 / 8)\<^sup>2" by (simp add: power2_eq_square)
  then show "sqrt (31 / 108 :: real) < 5 / 8" by (rule real_less_lsqrt [rotated 1]) simp 
qed

subsection \<open>Arguments, principal powers and square roots\<close>



lemma Arg_pos_real: "x > 0 \<Longrightarrow> Arg (complex_of_real x) = 0"
  by (rule cis_Arg_unique) (simp_all add: sgn_eq)

lemma Arg_neg_real: "x < 0 \<Longrightarrow> Arg (complex_of_real x) = pi"
  by (rule cis_Arg_unique) (simp_all add: sgn_eq)



lemma cpow_pos_real: "x > 0 \<Longrightarrow> cpow (complex_of_real x) y = complex_of_real (x powr y)"
  by (simp add: cpow_def Arg_pos_real)

lemma cpow_neg_real: "x < 0 \<Longrightarrow> cpow (complex_of_real x) y = rcis ((- x) powr y) (y * pi)"
  by (simp add: cpow_def Arg_neg_real)




lemma csqrt_nonneg_real: "0 \<le> d \<Longrightarrow> csqrt (Complex d 0) = Complex (sqrt d) 0"
  by (simp add: complex_eq_iff norm_complex_def)

subsection \<open>The values of Cardano's formula\<close>

text \<open>For \<open>disc < 0\<close> the two cube roots are conjugate and the three values are real. For
  \<open>disc > 0\<close> with \<open>-q + s > 0 > -q - s\<close> the second cube root is that of a negative
  real.\<close>

lemma roots_unfold:
  "roots (a0, a1, a2) =
     (let s = csqrt (Complex (disc (a0, a1, a2)) 0);
          u1 = cpow (- complex_of_real (depressed_q (a0, a1, a2)) + s) (1 / 3);
          u2 = cpow (- complex_of_real (depressed_q (a0, a1, a2)) - s) (1 / 3)
      in [u1 + u2 - complex_of_real (a0 / 3),
          Complex (- 1 / 2) (1.7320508075688772935 / 2) * u1 +
            Complex (- 1 / 2) (- 1.7320508075688772935 / 2) * u2 - complex_of_real (a0 / 3),
          Complex (- 1 / 2) (- 1.7320508075688772935 / 2) * u1 +
            Complex (- 1 / 2) (1.7320508075688772935 / 2) * u2 - complex_of_real (a0 / 3)])"
  by (simp add: roots.simps disc_def Let_def)

lemma roots_neg_zero_unfold:
  "roots_neg_zero (a0, a1, a2) =
     (let s = csqrt (Complex (disc (a0, a1, a2)) 0);
          u1 = cpow (- complex_of_real (depressed_q (a0, a1, a2)) + s) (1 / 3);
          u2 = cpow_neg_zero (- complex_of_real (depressed_q (a0, a1, a2)) - s) (1 / 3)
      in [u1 + u2 - complex_of_real (a0 / 3),
          Complex (- 1 / 2) (1.7320508075688772935 / 2) * u1 +
            Complex (- 1 / 2) (- 1.7320508075688772935 / 2) * u2 - complex_of_real (a0 / 3),
          Complex (- 1 / 2) (- 1.7320508075688772935 / 2) * u1 +
            Complex (- 1 / 2) (1.7320508075688772935 / 2) * u2 - complex_of_real (a0 / 3)])"
  by (simp add: roots_neg_zero.simps disc_def Let_def)




lemma roots_pos_disc_mixed:
  assumes d: "disc (a0, a1, a2) > 0"
    and A: "- depressed_q (a0, a1, a2) + sqrt (disc (a0, a1, a2)) > 0"
    and B: "- depressed_q (a0, a1, a2) - sqrt (disc (a0, a1, a2)) < 0"
  defines "\<alpha> \<equiv> (- depressed_q (a0, a1, a2) + sqrt (disc (a0, a1, a2))) powr (1 / 3)"
    and "\<beta> \<equiv> (depressed_q (a0, a1, a2) + sqrt (disc (a0, a1, a2))) powr (1 / 3)"
  shows "roots (a0, a1, a2) =
     [Complex (\<alpha> + \<beta> / 2 - a0 / 3) (\<beta> * sqrt 3 / 2),
      Complex (- \<alpha> / 2 - \<beta> / 4 + 1.7320508075688772935 * \<beta> * sqrt 3 / 4 - a0 / 3)
        (1.7320508075688772935 * \<alpha> / 2 - \<beta> * sqrt 3 / 4 - 1.7320508075688772935 * \<beta> / 4),
      Complex (- \<alpha> / 2 - \<beta> / 4 - 1.7320508075688772935 * \<beta> * sqrt 3 / 4 - a0 / 3)
        (- 1.7320508075688772935 * \<alpha> / 2 - \<beta> * sqrt 3 / 4 + 1.7320508075688772935 * \<beta> / 4)]"
proof -
  let ?q = "depressed_q (a0, a1, a2)" and ?d = "disc (a0, a1, a2)"
  have s: "csqrt (Complex ?d 0) = Complex (sqrt ?d) 0"
    using d by (intro csqrt_nonneg_real) simp
  have z1: "- complex_of_real ?q + Complex (sqrt ?d) 0 = complex_of_real (- ?q + sqrt ?d)"
    by (simp add: complex_eq_iff)
  have z2: "- complex_of_real ?q - Complex (sqrt ?d) 0 = complex_of_real (- ?q - sqrt ?d)"
    by (simp add: complex_eq_iff)
  have u1: "cpow (complex_of_real (- ?q + sqrt ?d)) (1 / 3) = complex_of_real \<alpha>"
    unfolding \<alpha>_def by (rule cpow_pos_real [OF A])
  have u2: "cpow (complex_of_real (- ?q - sqrt ?d)) (1 / 3) = rcis \<beta> (pi / 3)"
    using cpow_neg_real [OF B, of "1 / 3"]
    by (simp del: depressed_q.simps add: \<beta>_def add.commute)
  show ?thesis
    unfolding roots_unfold s Let_def z1 z2 u1 u2
    by (simp add: complex_eq_iff cos_60 sin_60 algebra_simps)
qed

lemma roots_neg_zero_pos_disc_mixed:
  assumes d: "disc (a0, a1, a2) > 0"
    and A: "- depressed_q (a0, a1, a2) + sqrt (disc (a0, a1, a2)) > 0"
    and B: "- depressed_q (a0, a1, a2) - sqrt (disc (a0, a1, a2)) < 0"
  defines "\<alpha> \<equiv> (- depressed_q (a0, a1, a2) + sqrt (disc (a0, a1, a2))) powr (1 / 3)"
    and "\<beta> \<equiv> (depressed_q (a0, a1, a2) + sqrt (disc (a0, a1, a2))) powr (1 / 3)"
  shows "roots_neg_zero (a0, a1, a2) =
     [Complex (\<alpha> + \<beta> / 2 - a0 / 3) (- \<beta> * sqrt 3 / 2),
      Complex (- \<alpha> / 2 - \<beta> / 4 - 1.7320508075688772935 * \<beta> * sqrt 3 / 4 - a0 / 3)
        (1.7320508075688772935 * \<alpha> / 2 + \<beta> * sqrt 3 / 4 - 1.7320508075688772935 * \<beta> / 4),
      Complex (- \<alpha> / 2 - \<beta> / 4 + 1.7320508075688772935 * \<beta> * sqrt 3 / 4 - a0 / 3)
        (- 1.7320508075688772935 * \<alpha> / 2 + \<beta> * sqrt 3 / 4 + 1.7320508075688772935 * \<beta> / 4)]"
proof -
  let ?q = "depressed_q (a0, a1, a2)" and ?d = "disc (a0, a1, a2)"
  have s: "csqrt (Complex ?d 0) = Complex (sqrt ?d) 0"
    using d by (intro csqrt_nonneg_real) simp
  have z1: "- complex_of_real ?q + Complex (sqrt ?d) 0 = complex_of_real (- ?q + sqrt ?d)"
    by (simp add: complex_eq_iff)
  have z2: "- complex_of_real ?q - Complex (sqrt ?d) 0 = complex_of_real (- ?q - sqrt ?d)"
    by (simp add: complex_eq_iff)
  have u1: "cpow (complex_of_real (- ?q + sqrt ?d)) (1 / 3) = complex_of_real \<alpha>"
    unfolding \<alpha>_def by (rule cpow_pos_real [OF A])
  have "cpow (complex_of_real (- ?q - sqrt ?d)) (1 / 3) = rcis \<beta> (pi / 3)"
    using cpow_neg_real [OF B, of "1 / 3"]
    by (simp del: depressed_q.simps add: \<beta>_def add.commute)
  then have u2: "cpow_neg_zero (complex_of_real (- ?q - sqrt ?d)) (1 / 3) = rcis \<beta> (- (pi / 3))"
    by (simp add: cpow_neg_zero_def rcis_def cis_cnj del: depressed_q.simps)
  show ?thesis
    unfolding roots_neg_zero_unfold s Let_def z1 z2 u1 u2
    by (simp add: complex_eq_iff cos_60 sin_60 algebra_simps)
qed

subsection \<open>Three real roots\<close>

text \<open>In exact arithmetic \<open>- 108 disc\<close> is the discriminant of the cubic: a cubic with three
  distinct real roots has \<open>disc < 0\<close>, one with a repeated root has \<open>disc = 0\<close>.\<close>

lemma disc_of_roots:
  fixes r1 r2 r3 :: real
  shows "disc (- (r1 + r2 + r3), r1 * r2 + r1 * r3 + r2 * r3, - (r1 * r2 * r3)) =
         - (((r1 - r2) * (r1 - r3) * (r2 - r3))\<^sup>2) / 108"
  by (simp add: disc_def Let_def power2_eq_square field_simps)

lemma disc_three_distinct_roots:
  fixes r1 r2 r3 :: real
  assumes "r1 < r2" and "r2 < r3"
  shows "disc (- (r1 + r2 + r3), r1 * r2 + r1 * r3 + r2 * r3, - (r1 * r2 * r3)) < 0"
proof -
  have "(r1 - r2) * (r1 - r3) * (r2 - r3) \<noteq> 0" using assms by simp
  then have "0 < ((r1 - r2) * (r1 - r3) * (r2 - r3))\<^sup>2" by (rule iffD2 [OF zero_less_power2])
  then have "- (((r1 - r2) * (r1 - r3) * (r2 - r3))\<^sup>2) / 108 < 0" by simp
  then show ?thesis by (simp only: disc_of_roots)
qed





text \<open>
  A repeated root, \<open>disc = 0\<close>, with \<open>q > 0\<close>: both cube roots are taken of the negative
  real \<open>-q\<close>, and the sign of the zero imaginary part decides. For \<open>x\<^sup>3 - 3 x + 2\<close>,
  with roots \<open>-2, 1, 1\<close>, the reading with the principal argument returns no value and
  the reading with the negative zero returns three.
\<close>

lemma roots_neg_zero_zero_disc_pos:
  assumes d: "disc (a0, a1, a2) = 0" and q: "depressed_q (a0, a1, a2) > 0"
  defines "g \<equiv> depressed_q (a0, a1, a2) powr (1 / 3)"
  shows "roots_neg_zero (a0, a1, a2) =
     [complex_of_real (g - a0 / 3),
      complex_of_real (- g / 2 - 1.7320508075688772935 * g * sqrt 3 / 2 - a0 / 3),
      complex_of_real (- g / 2 + 1.7320508075688772935 * g * sqrt 3 / 2 - a0 / 3)]"
proof -
  let ?q = "depressed_q (a0, a1, a2)"
  have s: "csqrt (Complex 0 0) = 0"
    by (simp add: complex_eq_iff)
  have z1: "- complex_of_real ?q + 0 = complex_of_real (- ?q)"
    by (simp add: complex_eq_iff)
  have z2: "- complex_of_real ?q - 0 = complex_of_real (- ?q)"
    by (simp add: complex_eq_iff)
  have nq: "- ?q < 0" using q by simp
  have u1: "cpow (complex_of_real (- ?q)) (1 / 3) = rcis g (pi / 3)"
    using cpow_neg_real [OF nq, of "1 / 3"]
    by (simp del: depressed_q.simps add: g_def)
  then have u2: "cpow_neg_zero (complex_of_real (- ?q)) (1 / 3) = rcis g (- (pi / 3))"
    by (simp add: cpow_neg_zero_def rcis_def cis_cnj del: depressed_q.simps)
  show ?thesis
    unfolding roots_neg_zero_unfold d s Let_def z1 z2 u1 u2
    by (simp add: complex_eq_iff cos_60 sin_60 algebra_simps)
qed

lemma repeated_root_readings:
  "disc (0, - 3, 2) = 0"
  "real_roots (0, - 3, 2) = []"
  "real_roots_neg_zero (0, - 3, 2) =
     [1, - 1 / 2 - 1.7320508075688772935 * sqrt 3 / 2, - 1 / 2 + 1.7320508075688772935 * sqrt 3 / 2]"
proof -
  show d: "disc (0, - 3, 2) = 0" by (simp add: disc_def)
  have q: "depressed_q (0, - 3, 2) = 1" by simp
  have s: "csqrt (Complex 0 0) = 0" by (simp add: complex_eq_iff)
  have m: "- complex_of_real 1 = complex_of_real (- 1)" by simp
  have u: "cpow (complex_of_real (- 1)) (1 / 3) = rcis 1 (pi / 3)"
    using cpow_neg_real [of "- 1" "1 / 3"] by simp
  have big: "\<not> sqrt 3 < 1 / 5000000000"
    using sqrt3_bounds(1) by simp
  have "roots (0, - 3, 2) = [Complex 1 (sqrt 3), Complex (- 1 / 2) (- sqrt 3 / 2), Complex (- 1 / 2) (- sqrt 3 / 2)]"
    unfolding roots_unfold d q s Let_def
    by (simp only: m add_0_right diff_0_right u) (simp add: complex_eq_iff cos_60 sin_60 algebra_simps)
  then show "real_roots (0, - 3, 2) = []"
    using big by (simp add: real_roots_def)
  have q0: "depressed_q (0, - 3, 2) > 0" by simp
  show "real_roots_neg_zero (0, - 3, 2) =
     [1, - 1 / 2 - 1.7320508075688772935 * sqrt 3 / 2, - 1 / 2 + 1.7320508075688772935 * sqrt 3 / 2]"
    unfolding real_roots_neg_zero_def roots_neg_zero_zero_disc_pos [OF d q0] q Let_def
    by simp
qed




subsection \<open>The cubic \<open>x\<^sup>3 + x + 1\<close>\<close>

text \<open>The cubic has exactly one real root, between \<open>-1\<close> and 0.\<close>

lemma x3_x_1_has_root: "\<exists>r::real. - 1 \<le> r \<and> r \<le> 0 \<and> r ^ 3 + r + 1 = 0"
proof -
  have c: "continuous_on {- 1 .. 0} (\<lambda>r::real. r ^ 3 + r + 1)"
    by (intro continuous_intros)
  have "\<exists>r::real. - 1 \<le> r \<and> r \<le> 0 \<and> r ^ 3 + r + 1 = 0"
    by (rule IVT' [of "\<lambda>r::real. r ^ 3 + r + 1", OF _ _ _ c]) simp_all
  then show ?thesis .
qed

lemma x3_x_1_root_unique:
  fixes r s :: real
  assumes "r ^ 3 + r + 1 = 0" and "s ^ 3 + s + 1 = 0"
  shows "r = s"
proof -
  have "(r - s) * (r\<^sup>2 + r * s + s\<^sup>2 + 1) = (r ^ 3 + r + 1) - (s ^ 3 + s + 1)"
    by (simp add: power3_eq_cube power2_eq_square algebra_simps)
  then have z: "(r - s) * (r\<^sup>2 + r * s + s\<^sup>2 + 1) = 0"
    using assms by simp
  have "r\<^sup>2 + r * s + s\<^sup>2 + 1 = (r + s / 2)\<^sup>2 + 3 * (s / 2)\<^sup>2 + 1"
    by (simp add: power2_eq_square algebra_simps)
  also have "\<dots> > 0"
    by (intro add_nonneg_pos add_nonneg_nonneg) simp_all
  finally have "r\<^sup>2 + r * s + s\<^sup>2 + 1 \<noteq> 0" by simp
  with z show ?thesis by simp
qed

lemma x3_x_1_one_real_root: "\<exists>!r::real. r ^ 3 + r + 1 = 0"
  using x3_x_1_has_root x3_x_1_root_unique by blast

lemma x3_x_1_values:
  "depressed_q (0, 1, 1) = 1 / 2" "disc (0, 1, 1) = 31 / 108"
  by (simp_all add: disc_def)

lemma x3_x_1_cube_roots:
  defines "\<alpha> \<equiv> (- (1 / 2) + sqrt (31 / 108 :: real)) powr (1 / 3)"
      and "\<beta> \<equiv> (1 / 2 + sqrt (31 / 108 :: real)) powr (1 / 3)"
  shows "1 / 10 \<le> 1.7320508075688772935 * \<alpha>"
    and "1.7320508075688772935 * \<alpha> < 9 / 10"
    and "17 / 10 \<le> 1.7320508075688772935 * \<beta>"
    and "1.7320508075688772935 * \<beta> \<le> \<beta> * sqrt 3"
proof -
  have a_lo: "1 / 10 \<le> \<alpha>"
  proof -
    have "(1 / 1000 :: real) powr (1 / 3) \<le> (- (1 / 2) + sqrt (31 / 108)) powr (1 / 3)"
      using sqrt_31_108(1) by (intro powr_mono2) simp_all
    then show ?thesis by (simp add: \<alpha>_def third_power_thousandth)
  qed
  have a_hi: "\<alpha> < 1 / 2"
  proof -
    have "(- (1 / 2) + sqrt (31 / 108)) powr (1 / 3) < (1 / 8 :: real) powr (1 / 3)"
      using sqrt_31_108 by (intro powr_less_mono2) simp_all
    then show ?thesis by (simp add: \<alpha>_def third_power_eighth)
  qed
  have b_lo: "1 \<le> \<beta>"
    unfolding \<beta>_def using sqrt_31_108(1) by (intro ge_one_powr_ge_zero) simp_all
  show "1 / 10 \<le> 1.7320508075688772935 * \<alpha>" using a_lo by simp
  show "1.7320508075688772935 * \<alpha> < 9 / 10" using a_hi by simp
  show "17 / 10 \<le> 1.7320508075688772935 * \<beta>" using b_lo by simp
  show "1.7320508075688772935 * \<beta> \<le> \<beta> * sqrt 3"
    using sqrt3_literal(2) b_lo by (simp add: mult.commute)
qed

lemma real_roots_x3_x_1: "real_roots (0, 1, 1) = []"
proof -
  let ?K = "1.7320508075688772935 :: real"
  define \<alpha> where "\<alpha> = (- (1 / 2) + sqrt (31 / 108 :: real)) powr (1 / 3)"
  define \<beta> where "\<beta> = (1 / 2 + sqrt (31 / 108 :: real)) powr (1 / 3)"
  define bs where "bs = \<beta> * sqrt 3"
  define Kb where "Kb = ?K * \<beta>"
  define Ka where "Ka = ?K * \<alpha>"
  have r: "roots (0, 1, 1) =
     [Complex (\<alpha> + \<beta> / 2) (bs / 2),
      Complex (- \<alpha> / 2 - \<beta> / 4 + Kb * sqrt 3 / 4) (Ka / 2 - bs / 4 - Kb / 4),
      Complex (- \<alpha> / 2 - \<beta> / 4 - Kb * sqrt 3 / 4) (- Ka / 2 - bs / 4 + Kb / 4)]"
    unfolding \<alpha>_def \<beta>_def bs_def Kb_def Ka_def
    using roots_pos_disc_mixed [of 0 1 1] sqrt_31_108
    unfolding x3_x_1_values by simp
  note b = x3_x_1_cube_roots [folded \<alpha>_def \<beta>_def, folded bs_def Kb_def Ka_def]
  have i1: "\<not> \<bar>bs / 2\<bar> < 1 / 10 ^ 10"
    using b(3,4) by simp
  have i2: "\<not> \<bar>Ka / 2 - bs / 4 - Kb / 4\<bar> < 1 / 10 ^ 10"
    using b(2,3,4) by simp
  have i3: "\<not> \<bar>- Ka / 2 - bs / 4 + Kb / 4\<bar> < 1 / 10 ^ 10"
    using b(1,4) by simp
  show ?thesis
    unfolding real_roots_def r Let_def using i1 i2 i3 by simp
qed

lemma real_roots_neg_zero_x3_x_1: "real_roots_neg_zero (0, 1, 1) = []"
proof -
  let ?K = "1.7320508075688772935 :: real"
  define \<alpha> where "\<alpha> = (- (1 / 2) + sqrt (31 / 108 :: real)) powr (1 / 3)"
  define \<beta> where "\<beta> = (1 / 2 + sqrt (31 / 108 :: real)) powr (1 / 3)"
  define bs where "bs = \<beta> * sqrt 3"
  define Kb where "Kb = ?K * \<beta>"
  define Ka where "Ka = ?K * \<alpha>"
  have r: "roots_neg_zero (0, 1, 1) =
     [Complex (\<alpha> + \<beta> / 2) (- bs / 2),
      Complex (- \<alpha> / 2 - \<beta> / 4 - Kb * sqrt 3 / 4) (Ka / 2 + bs / 4 - Kb / 4),
      Complex (- \<alpha> / 2 - \<beta> / 4 + Kb * sqrt 3 / 4) (- Ka / 2 + bs / 4 + Kb / 4)]"
    unfolding \<alpha>_def \<beta>_def bs_def Kb_def Ka_def
    using roots_neg_zero_pos_disc_mixed [of 0 1 1] sqrt_31_108
    unfolding x3_x_1_values by simp
  note b = x3_x_1_cube_roots [folded \<alpha>_def \<beta>_def, folded bs_def Kb_def Ka_def]
  have i1: "\<not> \<bar>- bs / 2\<bar> < 1 / 10 ^ 10"
    using b(3,4) by simp
  have i2: "\<not> \<bar>Ka / 2 + bs / 4 - Kb / 4\<bar> < 1 / 10 ^ 10"
    using b(1,4) by simp
  have i3: "\<not> \<bar>- Ka / 2 + bs / 4 + Kb / 4\<bar> < 1 / 10 ^ 10"
    using b(2,3,4) by simp
  show ?thesis
    unfolding real_roots_neg_zero_def r Let_def using i1 i2 i3 by simp
qed

text \<open>
  C2. The cubic \<open>x\<^sup>3 + x + 1\<close> has exactly one real root, and the claim wants both
  \<open>num_of_real_roots\<close> and the length of \<open>real_roots\<close> to be 1. The code answers 3 and
  returns no root at all, whatever the sign of the zero imaginary part of \<^verbatim>\<open>-q - s\<close>.
\<close>

theorem x3_x_1_cardinalities:
  "(\<exists>!r::real. r ^ 3 + r + 1 = 0) \<and>
   num_of_real_roots (0, 1, 1) = 3 \<and> length (real_roots (0, 1, 1)) = 0 \<and>
   num_of_real_roots (0, 1, 1) \<noteq> int (length (real_roots (0, 1, 1))) \<and>
   length (real_roots_neg_zero (0, 1, 1)) = 0"
  using x3_x_1_one_real_root
  by (simp add: real_roots_x3_x_1 real_roots_neg_zero_x3_x_1 num_of_real_roots_unfold
      x3_x_1_values)

text \<open>
  C6. The claim wants the result of \<open>real_roots\<close> to have 1, 2 or 3 entries. The
  cubic \<open>x\<^sup>3 + x + 1\<close> has a real root, but all three values of Cardano's formula,
  taken with principal cube roots, have an imaginary part far from 0, and the result
  is empty, whatever the sign of the zero imaginary part of \<^verbatim>\<open>-q - s\<close>.
\<close>

theorem real_roots_empty:
  "(\<exists>r::real. - 1 \<le> r \<and> r \<le> 0 \<and> r ^ 3 + r + 1 = 0) \<and>
   real_roots (0, 1, 1) = [] \<and> length (real_roots (0, 1, 1)) \<notin> {1, 2, 3} \<and>
   real_roots_neg_zero (0, 1, 1) = []"
  using x3_x_1_has_root
  by (simp add: real_roots_x3_x_1 real_roots_neg_zero_x3_x_1)

subsection \<open>Coefficients of the Z-factor cubic\<close>

text \<open>
  C7. For all reduced parameters \<open>a\<close> and \<open>b\<close>, the Van der Waals kind returns the
  coefficients \<open>(- b - 1, a, - a b)\<close> and the Peng-Robinson kind returns
  \<open>(b - 1, a - (3 b + 2) b, (- a + b + b\<^sup>2) b)\<close>.
\<close>

theorem zfactor_cubic_eq_coefficients:
  "vdw_zfactor_cubic_eq a b = (- b - 1, a, - (a * b)) \<and>
   pr_zfactor_cubic_eq a b = (b - 1, a - (3 * b + 2) * b, (- a + b + b\<^sup>2) * b)"
  by (simp add: vdw_zfactor_cubic_eq_def pr_zfactor_cubic_eq_def power2_eq_square)

subsection \<open>Reconfiguring the critical constants\<close>

text \<open>
  C8. For \<open>pc > 0\<close> and \<open>tc > 0\<close>, after \<open>set_params(pc, tc)\<close> the reduced pressure of
  \<open>pc\<close> and the reduced temperature of \<open>tc\<close> are 1, and the cached \<open>ac\<close> and \<open>bc\<close> are
  the critical attraction and repulsion parameters of the new \<open>(pc, tc)\<close>, whatever
  the instance held before.
\<close>

theorem set_params_reduced_unit:
  assumes "pc > 0" and "tc > 0"
  shows "reduced_pressure (set_params tr R pc tc e) pc = 1 \<and>
         reduced_temperature (set_params tr R pc tc e) tc = 1 \<and>
         ac_' (set_params tr R pc tc e) = omega_a tr * R\<^sup>2 * tc\<^sup>2 / pc \<and>
         bc_' (set_params tr R pc tc e) = omega_b tr * R * tc / pc \<and>
         pc_' (set_params tr R pc tc e) = pc \<and> tc_' (set_params tr R pc tc e) = tc \<and>
         reduced_pressure (vdw_set_params R pc tc v) pc = 1 \<and>
         reduced_temperature (vdw_set_params R pc tc v) tc = 1 \<and>
         ac_' (vdw_set_params R pc tc v) = 0.421875 * R\<^sup>2 * tc\<^sup>2 / pc \<and>
         bc_' (vdw_set_params R pc tc v) = 0.125 * R * tc / pc \<and>
         reduced_pressure (pr_set_params R pc tc omega w) pc = 1 \<and>
         reduced_temperature (pr_set_params R pc tc omega w) tc = 1 \<and>
         ac_' (pr_set_params R pc tc omega w) = 0.45724 * R\<^sup>2 * tc\<^sup>2 / pc \<and>
         bc_' (pr_set_params R pc tc omega w) = 0.07780 * R * tc / pc"
  using assms
  by (simp add: reduced_pressure_def reduced_temperature_def set_params_def
      vdw_set_params_def pr_set_params_def van_der_waals_traits_def peng_robinson_traits_def
      critical_attraction_param_def critical_repulsion_param_def power2_eq_square)

theorem set_params_reduced_unit_witness:
  "reduced_pressure (vdw_set_params 8 4 2 \<lparr>pc_' = 1, tc_' = 1, ac_' = 0, bc_' = 0\<rparr>) 4 = 1 \<and>
   reduced_temperature (vdw_set_params 8 4 2 \<lparr>pc_' = 1, tc_' = 1, ac_' = 0, bc_' = 0\<rparr>) 2 = 1 \<and>
   ac_' (vdw_set_params 8 4 2 \<lparr>pc_' = 1, tc_' = 1, ac_' = 0, bc_' = 0\<rparr>) = 27 \<and>
   bc_' (vdw_set_params 8 4 2 \<lparr>pc_' = 1, tc_' = 1, ac_' = 0, bc_' = 0\<rparr>) = 1 / 2"
  using set_params_reduced_unit [where pc = 4 and tc = 2 and R = 8
      and v = "\<lparr>pc_' = 1, tc_' = 1, ac_' = 0, bc_' = 0\<rparr>"
      and e = "\<lparr>pc_' = 1, tc_' = 1, ac_' = 0, bc_' = 0\<rparr>"
      and tr = van_der_waals_traits and omega = 0
      and w = "make_peng_robinson_eos 8 1 1 0"]
  by simp

subsection \<open>The Peng-Robinson temperature correction at the critical temperature\<close>

text \<open>
  C9. For every acentric factor \<open>omega\<close>, the Peng-Robinson multiplier
  \<open>alpha(tr) = (1 + m (1 - sqrt tr))\<^sup>2\<close>, with \<open>m\<close> derived from \<open>omega\<close> by the
  constructor or by \<open>set_params\<close>, is 1 at \<open>tr = 1\<close>.
\<close>

theorem alpha_at_critical:
  "alpha (make_peng_robinson_eos R pc tc omega) tr = (1 + m omega * (1 - sqrt tr))\<^sup>2 \<and>
   alpha (pr_set_params R pc tc omega e) tr = (1 + m omega * (1 - sqrt tr))\<^sup>2 \<and>
   alpha (make_peng_robinson_eos R pc tc omega) 1 = 1 \<and>
   alpha (pr_set_params R pc tc omega e) 1 = 1"
  by (simp add: alpha_def make_peng_robinson_eos_def pr_set_params_def set_params_def
      Let_def power2_eq_square)

subsection \<open>The flash loop\<close>

lemmas flash_eval =
  vapor_pressure_def vapor_pressure_loop.simps flash_of_def unit_ratio_eos_def leaving_eos_def
  max_element_def min_element_def fugacity_ratio_def Let_def

lemma loop_exit:
  "\<not> (eps > tol_' f \<and> it < max_iter_' f) \<Longrightarrow> vapor_pressure_loop f t p eps it = Done p eps it"
  by (subst vapor_pressure_loop.simps) auto

lemma loop_roots_not_found:
  "eps > tol_' f \<Longrightarrow> it < max_iter_' f \<Longrightarrow> length (zfactor (eos_' f p t)) < 2 \<Longrightarrow>
   vapor_pressure_loop f t p eps it =
     Return 0 \<lparr>rsd = eps, iter = it, error = multiple_roots_not_found\<rparr>"
  by (subst vapor_pressure_loop.simps) (simp add: Let_def)

lemma loop_step:
  "eps > tol_' f \<Longrightarrow> it < max_iter_' f \<Longrightarrow> \<not> length (zfactor (eos_' f p t)) < 2 \<Longrightarrow>
   vapor_pressure_loop f t p eps it =
     vapor_pressure_loop f t (p * fugacity_ratio f t p) \<bar>1 - fugacity_ratio f t p\<bar> (it + 1)"
  by (subst vapor_pressure_loop.simps) (simp add: Let_def fugacity_ratio_def)

lemma reaches_0: "reaches f t p_init 0 p eps \<longleftrightarrow> p = p_init \<and> eps = 1"
  by (auto simp: reaches_def)

lemma reaches_Suc:
  "reaches f t p_init (Suc k) p' eps' \<longleftrightarrow>
     (\<exists>p eps. reaches f t p_init k p eps \<and> eps > tol_' f \<and> int k < max_iter_' f \<and>
        \<not> length (zfactor (eos_' f p t)) < 2 \<and>
        p' = p * fugacity_ratio f t p \<and> eps' = \<bar>1 - fugacity_ratio f t p\<bar>)"
  unfolding reaches_def
  by (auto simp: less_Suc_eq split: option.splits if_splits)

lemma reaches_loop:
  "reaches f t p_init k p eps \<Longrightarrow>
   vapor_pressure_loop f t p_init 1 0 = vapor_pressure_loop f t p eps (int k)"
proof (induction k arbitrary: p eps)
  case 0
  then show ?case by (simp add: reaches_0)
next
  case (Suc k)
  from Suc.prems obtain q e where r: "reaches f t p_init k q e" and e: "e > tol_' f"
    and k: "int k < max_iter_' f" and z: "\<not> length (zfactor (eos_' f q t)) < 2"
    and p: "p = q * fugacity_ratio f t q" and eps: "eps = \<bar>1 - fugacity_ratio f t q\<bar>"
    unfolding reaches_Suc by blast
  have "vapor_pressure_loop f t p_init 1 0 = vapor_pressure_loop f t q e (int k)"
    by (rule Suc.IH [OF r])
  also have "\<dots> = vapor_pressure_loop f t p eps (int k + 1)"
    unfolding p eps by (rule loop_step [OF e k z])
  finally show ?case by (simp add: add.commute)
qed

text \<open>What the loop returns from a state it has reached.\<close>

lemma loop_from_reached:
  "it = int k \<Longrightarrow> reaches f t p_init k p eps \<Longrightarrow>
   (\<exists>k' p' eps'. reaches f t p_init k' p' eps' \<and> eps' > tol_' f \<and> int k' < max_iter_' f \<and>
       length (zfactor (eos_' f p' t)) < 2 \<and>
       vapor_pressure_loop f t p eps it =
         Return 0 \<lparr>rsd = eps', iter = int k', error = multiple_roots_not_found\<rparr>) \<or>
   (\<exists>k' p' eps'. reaches f t p_init k' p' eps' \<and> \<not> (eps' > tol_' f \<and> int k' < max_iter_' f) \<and>
       vapor_pressure_loop f t p eps it = Done p' eps' (int k'))"
proof (induction f t p eps it arbitrary: k rule: vapor_pressure_loop.induct)
  case (1 f t p eps it)
  show ?case
  proof (cases "eps > tol_' f \<and> it < max_iter_' f")
    case False
    with 1(2,3) loop_exit [OF False, of t p] show ?thesis by blast
  next
    case True
    then have e: "eps > tol_' f" and i: "it < max_iter_' f" by simp_all
    show ?thesis
    proof (cases "length (zfactor (eos_' f p t)) < 2")
      case True
      with 1(2,3) e i loop_roots_not_found [OF e i True] show ?thesis by blast
    next
      case False
      let ?r = "fugacity_ratio f t p"
      have next_reached: "reaches f t p_init (Suc k) (p * ?r) \<bar>1 - ?r\<bar>"
        unfolding reaches_Suc using 1(2,3) e i False by blast
      have "it + 1 = int (Suc k)" using 1(2) by simp
      have ih: "(\<exists>k' p' eps'. reaches f t p_init k' p' eps' \<and> eps' > tol_' f \<and> int k' < max_iter_' f \<and>
           length (zfactor (eos_' f p' t)) < 2 \<and>
           vapor_pressure_loop f t (p * ?r) \<bar>1 - ?r\<bar> (it + 1) =
           Return 0 \<lparr>rsd = eps', iter = int k', error = multiple_roots_not_found\<rparr>) \<or>
         (\<exists>k' p' eps'. reaches f t p_init k' p' eps' \<and> \<not> (eps' > tol_' f \<and> int k' < max_iter_' f) \<and>
           vapor_pressure_loop f t (p * ?r) \<bar>1 - ?r\<bar> (it + 1) = Done p' eps' (int k'))"
        using "1.IH" [OF True refl refl False refl refl refl refl \<open>it + 1 = int (Suc k)\<close>] next_reached
        unfolding fugacity_ratio_def Let_def by blast
      show ?thesis
        unfolding loop_step [OF e i False] by (rule ih)
    qed
  qed
qed

lemma vapor_pressure_cases:
  "(\<exists>k p eps. reaches f t p_init k p eps \<and> eps > tol_' f \<and> int k < max_iter_' f \<and>
       length (zfactor (eos_' f p t)) < 2 \<and>
       vapor_pressure f p_init t =
         (0, \<lparr>rsd = eps, iter = int k, error = multiple_roots_not_found\<rparr>)) \<or>
   (\<exists>k p eps. reaches f t p_init k p eps \<and> \<not> (eps > tol_' f \<and> int k < max_iter_' f) \<and>
       vapor_pressure_loop f t p_init 1 0 = Done p eps (int k) \<and>
       vapor_pressure f p_init t =
         (if int k \<ge> max_iter_' f then (0, \<lparr>rsd = eps, iter = int k, error = max_iter_reached\<rparr>)
          else (p, \<lparr>rsd = eps, iter = int k, error = success\<rparr>)))"
proof -
  have r0: "reaches f t p_init 0 p_init 1" by (simp add: reaches_0)
  have "0 = int 0" by simp
  from loop_from_reached [OF this r0] show ?thesis
  proof (elim disjE exE conjE)
    fix k p eps
    assume "reaches f t p_init k p eps" "eps > tol_' f" "int k < max_iter_' f"
      "length (zfactor (eos_' f p t)) < 2"
      "vapor_pressure_loop f t p_init 1 0 =
         Return 0 \<lparr>rsd = eps, iter = int k, error = multiple_roots_not_found\<rparr>"
    then show ?thesis
      by (intro disjI1 exI [of _ k] exI [of _ p] exI [of _ eps]) (simp add: vapor_pressure_def)
  next
    fix k p eps
    assume "reaches f t p_init k p eps" "\<not> (eps > tol_' f \<and> int k < max_iter_' f)"
      "vapor_pressure_loop f t p_init 1 0 = Done p eps (int k)"
    then show ?thesis
      by (intro disjI2 exI [of _ k] exI [of _ p] exI [of _ eps]) (simp add: vapor_pressure_def)
  qed
qed

lemma iterate_Some_mono:
  "iterate f t p_init k \<noteq> None \<Longrightarrow> j \<le> k \<Longrightarrow> iterate f t p_init j \<noteq> None"
proof (induction k)
  case 0
  then show ?case by simp
next
  case (Suc k)
  then show ?case
    by (cases "j = Suc k") (auto split: option.splits simp: le_Suc_eq)
qed

lemma first_convergence:
  assumes "iterate f t p_init k = Some (p, eps)" and "eps \<le> tol_' f" and "int k < max_iter_' f"
  shows "\<exists>k' p' eps'. reaches f t p_init k' p' eps' \<and> eps' \<le> tol_' f \<and> int k' < max_iter_' f"
proof -
  define Q where "Q n \<longleftrightarrow> (\<exists>p e. iterate f t p_init n = Some (p, e) \<and> e \<le> tol_' f)" for n
  have "Q k" using assms by (auto simp: Q_def)
  define n where "n = (LEAST n. Q n)"
  have Qn: "Q n" unfolding n_def using \<open>Q k\<close> by (rule LeastI)
  have nk: "n \<le> k" unfolding n_def using \<open>Q k\<close> by (rule Least_le)
  have least: "\<not> Q j" if "j < n" for j
    using that not_less_Least unfolding n_def by blast
  from Qn obtain p' e' where it: "iterate f t p_init n = Some (p', e')" and e': "e' \<le> tol_' f"
    by (auto simp: Q_def)
  have "reaches f t p_init n p' e'"
    unfolding reaches_def
  proof (intro conjI allI impI)
    show "iterate f t p_init n = Some (p', e')" by (rule it)
  next
    fix j assume "j < n"
    with nk assms(3) show "int j < max_iter_' f" by simp
  next
    fix j assume j: "j < n"
    have "iterate f t p_init j \<noteq> None"
      using iterate_Some_mono [of f t p_init n j] it j by simp
    then obtain q e where qe: "iterate f t p_init j = Some (q, e)" by auto
    with least [OF j] have "e > tol_' f" by (auto simp: Q_def)
    with qe show "\<exists>p' e'. iterate f t p_init j = Some (p', e') \<and> tol_' f < e'" by blast
  qed
  with e' nk assms(3) show ?thesis by (intro exI [of _ n] exI [of _ p'] exI [of _ e']) simp
qed

lemma reached_converged_success:
  assumes "reaches f t p_init k p eps" and "eps \<le> tol_' f" and "int k < max_iter_' f"
  shows "vapor_pressure f p_init t = (p, \<lparr>rsd = eps, iter = int k, error = success\<rparr>)"
proof -
  have "vapor_pressure_loop f t p_init 1 0 = vapor_pressure_loop f t p eps (int k)"
    by (rule reaches_loop [OF assms(1)])
  also have "\<dots> = Done p eps (int k)"
    using assms(2) by (intro loop_exit) simp
  finally show ?thesis
    using assms(3) by (simp add: vapor_pressure_def)
qed

lemma success_converged:
  assumes "error (snd (vapor_pressure f p_init t)) = success"
  shows "\<exists>k p eps. reaches f t p_init k p eps \<and> eps \<le> tol_' f \<and> int k < max_iter_' f"
  using vapor_pressure_cases [of f t p_init] assms
proof (elim disjE exE conjE)
  fix k p eps
  assume "vapor_pressure f p_init t =
    (0, \<lparr>rsd = eps, iter = int k, error = multiple_roots_not_found\<rparr>)"
  with assms show ?thesis by simp
next
  fix k p eps
  assume r: "reaches f t p_init k p eps" and n: "\<not> (eps > tol_' f \<and> int k < max_iter_' f)"
    and v: "vapor_pressure f p_init t =
         (if int k \<ge> max_iter_' f then (0, \<lparr>rsd = eps, iter = int k, error = max_iter_reached\<rparr>)
          else (p, \<lparr>rsd = eps, iter = int k, error = success\<rparr>))"
  from assms v have k: "int k < max_iter_' f" by (simp split: if_splits)
  with n have "eps \<le> tol_' f" by simp
  with r k show ?thesis by blast
qed

text \<open>
  C3 (as amended). In a run in which every value computed (pressures, fugacity
  coefficients, residuals) is a finite number, \<open>vapor_pressure\<close> returns status
  \<open>success\<close> exactly when the residual is at most \<open>tol\<close> after fewer than \<open>max_iter\<close>
  iterations (the start, with residual 1, counts as zero iterations); it then returns
  the pressure, residual and count of the first such iterate. When the loop exits with
  \<open>iter \<ge> max_iter\<close>, also when the residual came down to \<open>tol\<close> in that very
  iteration, the result is pressure 0 with status \<open>max_iter_reached\<close> and the final
  residual and count. Runs that meet a NaN or an infinity are left out, neither promised
  nor denied: the reals of the model are the finite numbers.
\<close>

theorem vapor_pressure_success_iff:
  "(error (snd (vapor_pressure f p_init t)) = success \<longleftrightarrow>
      (\<exists>k p eps. iterate f t p_init k = Some (p, eps) \<and> eps \<le> tol_' f \<and> int k < max_iter_' f)) \<and>
   (\<forall>k p eps. reaches f t p_init k p eps \<and> eps \<le> tol_' f \<and> int k < max_iter_' f \<longrightarrow>
      vapor_pressure f p_init t = (p, \<lparr>rsd = eps, iter = int k, error = success\<rparr>)) \<and>
   (\<forall>p eps it. vapor_pressure_loop f t p_init 1 0 = Done p eps it \<and> it \<ge> max_iter_' f \<longrightarrow>
      vapor_pressure f p_init t = (0, \<lparr>rsd = eps, iter = it, error = max_iter_reached\<rparr>))"
proof (intro conjI allI impI iffI)
  assume "error (snd (vapor_pressure f p_init t)) = success"
  from success_converged [OF this]
  show "\<exists>k p eps. iterate f t p_init k = Some (p, eps) \<and> eps \<le> tol_' f \<and> int k < max_iter_' f"
    unfolding reaches_def by blast
next
  assume "\<exists>k p eps. iterate f t p_init k = Some (p, eps) \<and> eps \<le> tol_' f \<and> int k < max_iter_' f"
  then obtain k p eps where "reaches f t p_init k p eps" "eps \<le> tol_' f" "int k < max_iter_' f"
    using first_convergence by blast
  then show "error (snd (vapor_pressure f p_init t)) = success"
    by (simp add: reached_converged_success)
next
  fix k p eps
  assume "reaches f t p_init k p eps \<and> eps \<le> tol_' f \<and> int k < max_iter_' f"
  then show "vapor_pressure f p_init t = (p, \<lparr>rsd = eps, iter = int k, error = success\<rparr>)"
    by (simp add: reached_converged_success)
next
  fix p eps it
  assume "vapor_pressure_loop f t p_init 1 0 = Done p eps it \<and> it \<ge> max_iter_' f"
  then show "vapor_pressure f p_init t = (0, \<lparr>rsd = eps, iter = it, error = max_iter_reached\<rparr>)"
    by (simp add: vapor_pressure_def)
qed

theorem vapor_pressure_success_iff_witness:
  "vapor_pressure (flash_of unit_ratio_eos (1 / 2) 2) 5 300 =
     (5, \<lparr>rsd = 0, iter = 1, error = success\<rparr>) \<and>
   vapor_pressure (flash_of leaving_eos (1 / 2) 1) 5 300 =
     (0, \<lparr>rsd = 1, iter = 1, error = max_iter_reached\<rparr>)"
proof -
  have r: "reaches (flash_of unit_ratio_eos (1 / 2) 2) 300 5 (Suc 0) 5 0"
    by (simp add: reaches_def flash_eval)
  have l: "vapor_pressure_loop (flash_of leaving_eos (1 / 2) 1) 300 5 1 0 = Done 10 1 1"
    by (simp add: flash_eval)
  have a: "vapor_pressure (flash_of unit_ratio_eos (1 / 2) 2) 5 300 =
      (5, \<lparr>rsd = 0, iter = int (Suc 0), error = success\<rparr>)"
    using vapor_pressure_success_iff [of "flash_of unit_ratio_eos (1 / 2) 2" 5 300,
        THEN conjunct2, THEN conjunct1, rule_format, of "Suc 0" 5 0] r
    by (simp add: flash_of_def)
  have b: "vapor_pressure (flash_of leaving_eos (1 / 2) 1) 5 300 =
      (0, \<lparr>rsd = 1, iter = 1, error = max_iter_reached\<rparr>)"
    using vapor_pressure_success_iff [of "flash_of leaving_eos (1 / 2) 1" 5 300,
        THEN conjunct2, THEN conjunct2, rule_format, of 10 1 1] l
    by (simp add: flash_of_def)
  from a b show ?thesis by simp
qed

theorem vapor_pressure_last_iteration_counterexample:
  "iterate (flash_of unit_ratio_eos (1 / 2) 1) 300 5 1 = Some (5, 0) \<and>
   (0::real) \<le> tol_' (flash_of unit_ratio_eos (1 / 2) 1) \<and>
   (1::int) \<le> max_iter_' (flash_of unit_ratio_eos (1 / 2) 1) \<and>
   vapor_pressure (flash_of unit_ratio_eos (1 / 2) 1) 5 300 =
     (0, \<lparr>rsd = 0, iter = 1, error = max_iter_reached\<rparr>)"
  by (simp add: flash_eval)

text \<open>
  C4. If the loop runs its body for the \<open>k+1\<close>-st time (the state is reached, the
  residual exceeds \<open>tol\<close> and \<open>k < max_iter\<close>) and the root vector at the current pressure
  has fewer than two entries, \<open>vapor_pressure\<close> returns at once pressure 0 and a report
  with status \<open>multiple_roots_not_found\<close>, the current residual and the current count.
\<close>

theorem multiple_roots_not_found_returns:
  assumes "reaches f t p_init k p eps"
    and "eps > tol_' f" and "int k < max_iter_' f"
    and "length (zfactor (eos_' f p t)) < 2"
  shows "vapor_pressure_loop f t p eps (int k) =
           Return 0 \<lparr>rsd = eps, iter = int k, error = multiple_roots_not_found\<rparr> \<and>
         vapor_pressure f p_init t =
           (0, \<lparr>rsd = eps, iter = int k, error = multiple_roots_not_found\<rparr>)"
proof -
  have l: "vapor_pressure_loop f t p eps (int k) =
      Return 0 \<lparr>rsd = eps, iter = int k, error = multiple_roots_not_found\<rparr>"
    by (rule loop_roots_not_found [OF assms(2,3,4)])
  have "vapor_pressure_loop f t p_init 1 0 = vapor_pressure_loop f t p eps (int k)"
    by (rule reaches_loop [OF assms(1)])
  with l show ?thesis
    by (simp add: vapor_pressure_def)
qed

theorem multiple_roots_not_found_returns_witness:
  "reaches (flash_of leaving_eos (1 / 2) 5) 300 5 1 10 1 \<and>
   length (zfactor (eos_' (flash_of leaving_eos (1 / 2) 5) 10 300)) = 1 \<and>
   vapor_pressure (flash_of leaving_eos (1 / 2) 5) 5 300 =
     (0, \<lparr>rsd = 1, iter = 1, error = multiple_roots_not_found\<rparr>)"
proof -
  have r: "reaches (flash_of leaving_eos (1 / 2) 5) 300 5 1 10 1"
    by (simp add: reaches_def flash_eval)
  have e: "(1::real) > tol_' (flash_of leaving_eos (1 / 2) 5)"
    and k: "int 1 < max_iter_' (flash_of leaving_eos (1 / 2) 5)"
    and z: "length (zfactor (eos_' (flash_of leaving_eos (1 / 2) 5) 10 300)) < 2"
    by (simp_all add: flash_of_def leaving_eos_def)
  from multiple_roots_not_found_returns [OF r e k z] r show ?thesis
    by (simp add: flash_of_def leaving_eos_def)
qed

text \<open>
  C10 (as amended). If \<open>tol \<ge> 1\<close> and \<open>max_iter > 0\<close>, \<open>vapor_pressure\<close> returns
  \<open>p_init\<close> with status \<open>success\<close>, residual 1 and count 0, whatever the EoS is.
\<close>

theorem large_tolerance_immediate_success:
  assumes "tol_' f \<ge> 1" and "max_iter_' f > 0"
  shows "vapor_pressure f p_init t = (p_init, \<lparr>rsd = 1, iter = 0, error = success\<rparr>) \<and>
         vapor_pressure (f\<lparr>eos_' := eos\<rparr>) p_init t = vapor_pressure f p_init t"
proof -
  have "vapor_pressure g p_init t = (p_init, \<lparr>rsd = 1, iter = 0, error = success\<rparr>)"
    if "tol_' g \<ge> 1" and "max_iter_' g > 0" for g
  proof -
    have "vapor_pressure_loop g t p_init 1 0 = Done p_init 1 0"
      using that(1) by (intro loop_exit) simp
    with that(2) show ?thesis
      by (simp add: vapor_pressure_def)
  qed
  from this [of f] this [of "f\<lparr>eos_' := eos\<rparr>"] assms show ?thesis
    by simp
qed

theorem large_tolerance_immediate_success_witness:
  "vapor_pressure ((make_flash leaving_eos)\<lparr>tol_' := 1\<rparr>) 9 300 =
     (9, \<lparr>rsd = 1, iter = 0, error = success\<rparr>)"
  using large_tolerance_immediate_success [of "(make_flash leaving_eos)\<lparr>tol_' := 1\<rparr>" 9 300]
  by (simp add: make_flash_def)

theorem large_tolerance_no_budget_counterexample:
  "tol_' (flash_of unit_ratio_eos 1 0) \<ge> 1 \<and>
   vapor_pressure (flash_of unit_ratio_eos 1 0) 5 300 =
     (0, \<lparr>rsd = 1, iter = 0, error = max_iter_reached\<rparr>)"
  by (simp add: flash_eval)

end
